theory Spec2Isabelle
  imports Complex_Main
begin

section \<open>Strings of the host language\<close>

text \<open>
  The exam page builds a few messages with template strings. The helpers below give the
  ASCII behaviour of \<^verbatim>\<open>toUpperCase\<close>, \<^verbatim>\<open>toLowerCase\<close>, \<^verbatim>\<open>String.includes\<close> and the decimal
  rendering of a counter.
\<close>

definition lowerLetters :: string where
  "lowerLetters = ''abcdefghijklmnopqrstuvwxyz''"

definition upperLetters :: string where
  "upperLetters = ''ABCDEFGHIJKLMNOPQRSTUVWXYZ''"

definition toUpperCase :: "string \<Rightarrow> string" where
  "toUpperCase = map (\<lambda>c. case map_of (zip lowerLetters upperLetters) c of
                              Some u \<Rightarrow> u | None \<Rightarrow> c)"

definition toLowerCase :: "string \<Rightarrow> string" where
  "toLowerCase = map (\<lambda>c. case map_of (zip upperLetters lowerLetters) c of
                              Some u \<Rightarrow> u | None \<Rightarrow> c)"

function showNat :: "nat \<Rightarrow> string" where
  "showNat n = (if n < 10 then [''0123456789'' ! n]
                else showNat (n div 10) @ [''0123456789'' ! (n mod 10)])"
  by pat_completeness auto
termination
  by (relation "measure id") auto

declare showNat.simps [simp del]

fun startsWith :: "string \<Rightarrow> string \<Rightarrow> bool" where
  "startsWith s [] = True"
| "startsWith [] (p # ps) = False"
| "startsWith (c # cs) (p # ps) = (c = p \<and> startsWith cs ps)"

fun includesStr :: "string \<Rightarrow> string \<Rightarrow> bool" where
  "includesStr [] sub = (sub = [])"
| "includesStr (c # cs) sub = (startsWith (c # cs) sub \<or> includesStr cs sub)"

text \<open>JavaScript truthiness of a value that is a string, \<^verbatim>\<open>null\<close> or \<^verbatim>\<open>undefined\<close>.\<close>

fun truthy :: "string option \<Rightarrow> bool" where
  "truthy None = False"
| "truthy (Some s) = (s \<noteq> [])"

section \<open>The exam page: \<^verbatim>\<open>ExamContent\<close>\<close>

text \<open>
  The component state (\<^verbatim>\<open>useState\<close>) is a record that every handler takes and returns.
  What a handler does beyond the component state is kept in the same record: the
  blocking dialogs it opens (\<^verbatim>\<open>window.alert\<close>), the navigations it requests
  (\<^verbatim>\<open>router.push\<close>), the number of zero-delay timers that will dispatch a synthetic
  \<^verbatim>\<open>blur\<close> event, and the number of default actions it prevented. The identifier that \<^verbatim>\<open>addAlert\<close> draws from the clock and
  the random generator is modelled by a counter, and the \<^verbatim>\<open>timestamp\<close> field of an alert
  is left out.
\<close>

datatype severity = Info | Warning | Error

record alert =
  atype :: string
  amessage :: string
  asev :: "severity option"

record exam_state =
  timeLeft :: int
  alerts :: "(nat \<times> alert) list"
  cameraStatus :: string
  micStatus :: string
  tabSwitches :: nat
  examTerminated :: bool
  dialogs :: "string list"
  navigations :: "string list"
  pendingBlur :: nat
  prevented :: nat
  nextId :: nat

definition initialExam :: exam_state where
  "initialExam = \<lparr> timeLeft = 3600, alerts = [], cameraStatus = ''connected'',
     micStatus = ''connected'', tabSwitches = 0, examTerminated = False, dialogs = [],
     navigations = [], pendingBlur = 0, prevented = 0, nextId = 0 \<rparr>"

definition immediateStopTypes :: "string list" where
  "immediateStopTypes = [''multiple_faces'', ''phone_detected'', ''recording_detected'']"

definition addAlert :: "alert \<Rightarrow> exam_state \<Rightarrow> exam_state" where
  "addAlert a s =
     (let stop = (atype a \<in> set immediateStopTypes);
          shown = (if stop then a\<lparr>asev := (case asev a of None \<Rightarrow> Some Error | Some v \<Rightarrow> Some v)\<rparr>
                   else a)
      in s\<lparr> alerts := alerts s @ [(nextId s, shown)],
            nextId := Suc (nextId s),
            pendingBlur := (if stop then Suc (pendingBlur s) else pendingBlur s) \<rparr>)"

text \<open>The five-second timer of \<^verbatim>\<open>addAlert\<close>, when it fires for the alert with identifier \<open>i\<close>.\<close>

definition expireAlert :: "nat \<Rightarrow> exam_state \<Rightarrow> exam_state" where
  "expireAlert i s = s\<lparr> alerts := filter (\<lambda>a. fst a \<noteq> i) (alerts s) \<rparr>"

text \<open>
  A handler is a closure of the render that created it. Where its source reads a state
  variable (\<^verbatim>\<open>examTerminated\<close> in \<^verbatim>\<open>terminateExam\<close>, \<^verbatim>\<open>tabSwitches\<close> in
  \<^verbatim>\<open>handleVisibilityChange\<close>) it reads the constant of that render; the updaters it passes
  to the state setters work on the current state. \<open>terminateExam\<close> therefore takes, as
  its first argument, the value of \<^verbatim>\<open>examTerminated\<close> that its closure holds.
\<close>

definition terminateExam :: "bool \<Rightarrow> string \<Rightarrow> exam_state \<Rightarrow> exam_state" where
  "terminateExam examTerminated_seen reason s =
     (if examTerminated_seen then s
      else
        let s1 = s\<lparr> examTerminated := True \<rparr>;
            s2 = addAlert \<lparr> atype = ''exam_terminated'',
                            amessage = ''Exam terminated: '' @ reason,
                            asev = Some Error \<rparr> s1;
            s3 = s2\<lparr> dialogs := dialogs s2 @ [''Exam terminated: '' @ reason] \<rparr>
        in s3\<lparr> navigations := navigations s3 @ [''/''] \<rparr>)"

text \<open>The countdown: the updater passed to \<^verbatim>\<open>setTimeLeft\<close> once a second.\<close>

definition timerTick :: "exam_state \<Rightarrow> exam_state" where
  "timerTick s =
     (if timeLeft s \<le> 1
      then s\<lparr> dialogs := dialogs s @ [''Time's up! Your exam has been submitted.''],
              timeLeft := 0 \<rparr>
      else s\<lparr> timeLeft := timeLeft s - 1 \<rparr>)"

subsection \<open>The listener bank\<close>

text \<open>
  The listeners of the document and of the window are subscribed by an effect whose
  dependency list is \<^verbatim>\<open>[tabSwitches, examTerminated]\<close>: after every change of one of the
  two, the listeners of the new render replace the old ones. Each listener below
  therefore reads the two variables from the state it is given, once, when it starts.
  The argument of \<open>handleVisibilityChange\<close> is \<^verbatim>\<open>document.hidden\<close>.
\<close>

definition handleVisibilityChange :: "bool \<Rightarrow> exam_state \<Rightarrow> exam_state" where
  "handleVisibilityChange hidden s =
     (if hidden then
        let newSwitchCount = tabSwitches s + 1;
            s1 = s\<lparr> tabSwitches := newSwitchCount \<rparr>;
            s2 = addAlert \<lparr> atype = ''tab_switch'',
                            amessage = ''Tab switch detected! ('' @ showNat newSwitchCount @ '' times)'',
                            asev = Some Warning \<rparr> s1
        in terminateExam (examTerminated s) ''Left the exam tab (visibility change)'' s2
      else s)"

definition handleFocus :: "exam_state \<Rightarrow> exam_state" where
  "handleFocus s =
     addAlert \<lparr> atype = ''focus'', amessage = ''Exam tab focused'', asev = Some Info \<rparr> s"

definition handleBlur :: "exam_state \<Rightarrow> exam_state" where
  "handleBlur s =
     terminateExam (examTerminated s) ''Window lost focus''
       (addAlert \<lparr> atype = ''blur'',
                   amessage = ''Exam tab lost focus - potential cheating attempt!'',
                   asev = Some Error \<rparr> s)"

text \<open>The argument of \<open>handleFullscreenChange\<close> says whether \<^verbatim>\<open>document.fullscreenElement\<close> is set.\<close>

definition handleFullscreenChange :: "bool \<Rightarrow> exam_state \<Rightarrow> exam_state" where
  "handleFullscreenChange fullscreenElement s =
     (if \<not> fullscreenElement then
        addAlert \<lparr> atype = ''fullscreen_exit'',
                   amessage = ''Fullscreen mode exited - potential cheating attempt!'',
                   asev = Some Warning \<rparr> s
      else s)"

record key_event =
  ctrlKey :: bool
  metaKey :: bool
  key :: string

definition handleKeyDown :: "key_event \<Rightarrow> exam_state \<Rightarrow> exam_state" where
  "handleKeyDown e s =
     (let s1 = (if (ctrlKey e \<or> metaKey e) \<and> (key e = ''t'' \<or> key e = ''n'' \<or> key e = ''w'')
                then terminateExam (examTerminated s) ''Prohibited shortcut used''
                       (addAlert \<lparr> atype = ''shortcut'',
                                   amessage = ''Potentially suspicious shortcut detected: ''
                                     @ (if ctrlKey e then ''Ctrl'' else ''Cmd'') @ ''+''
                                     @ toUpperCase (key e),
                                   asev = Some Warning \<rparr> s)
                else s);
          s2 = (if key e = ''F12''
                then terminateExam (examTerminated s) ''Developer tools opened''
                       (addAlert \<lparr> atype = ''dev_tools'',
                                   amessage = ''Developer tools access attempt detected!'',
                                   asev = Some Error \<rparr> s1)
                else s1)
      in if (ctrlKey e \<or> metaKey e)
            \<and> (toLowerCase (key e) = ''c'' \<or> toLowerCase (key e) = ''v''
                \<or> toLowerCase (key e) = ''x'')
         then terminateExam (examTerminated s) ''Copy/Cut/Paste attempted''
                (addAlert \<lparr> atype = ''clipboard_block'',
                            amessage = ''Copy/Cut/Paste is not allowed during the exam.'',
                            asev = Some Warning \<rparr> (s2\<lparr> prevented := Suc (prevented s2) \<rparr>))
         else s2)"

definition handleContextMenu :: "exam_state \<Rightarrow> exam_state" where
  "handleContextMenu s =
     terminateExam (examTerminated s) ''Right-click/context menu attempt''
       (addAlert \<lparr> atype = ''right_click'',
                   amessage = ''Right-click disabled - context menu access attempted'',
                   asev = Some Warning \<rparr> (s\<lparr> prevented := Suc (prevented s) \<rparr>))"

definition handleCopy :: "exam_state \<Rightarrow> exam_state" where
  "handleCopy s =
     terminateExam (examTerminated s) ''Copy attempted''
       (addAlert \<lparr> atype = ''copy_block'',
                   amessage = ''Copy is not allowed during the exam.'',
                   asev = Some Warning \<rparr> (s\<lparr> prevented := Suc (prevented s) \<rparr>))"

definition handleCut :: "exam_state \<Rightarrow> exam_state" where
  "handleCut s =
     terminateExam (examTerminated s) ''Cut attempted''
       (addAlert \<lparr> atype = ''cut_block'',
                   amessage = ''Cut is not allowed during the exam.'',
                   asev = Some Warning \<rparr> (s\<lparr> prevented := Suc (prevented s) \<rparr>))"

definition handlePaste :: "exam_state \<Rightarrow> exam_state" where
  "handlePaste s =
     terminateExam (examTerminated s) ''Paste attempted''
       (addAlert \<lparr> atype = ''paste_block'',
                   amessage = ''Paste is not allowed during the exam.'',
                   asev = Some Warning \<rparr> (s\<lparr> prevented := Suc (prevented s) \<rparr>))"

definition handleBeforeUnload :: "exam_state \<Rightarrow> exam_state" where
  "handleBeforeUnload s =
     terminateExam (examTerminated s) ''Tab/window closed'' (s\<lparr> prevented := Suc (prevented s) \<rparr>)"

subsection \<open>The callbacks handed to the camera feed\<close>

text \<open>
  The camera feed starts its analysis loop in an effect with an empty dependency list, so
  for the whole life of the page the loop calls the \<^verbatim>\<open>onViolation\<close> and the
  \<^verbatim>\<open>onStatusChange\<close> it was given when it was mounted. The page mounts the feed in its
  first render, and in that render \<^verbatim>\<open>examTerminated\<close> is \<^verbatim>\<open>false\<close>: this is the value
  that the \<^verbatim>\<open>terminateExam\<close> inside \<open>onViolation\<close> tests on every call.
\<close>

record violation =
  vtype :: string
  vmessage :: string

definition onStatusChange :: "string \<Rightarrow> string \<Rightarrow> exam_state \<Rightarrow> exam_state" where
  "onStatusChange camera mic s =
     (let s1 = s\<lparr> cameraStatus := camera, micStatus := mic \<rparr>;
          s2 = (if camera = ''disconnected''
                then addAlert \<lparr> atype = ''camera_disconnected'',
                                amessage = ''Camera disconnected! Please reconnect immediately.'',
                                asev = Some Error \<rparr> s1
                else s1)
      in if mic = ''disconnected''
         then addAlert \<lparr> atype = ''mic_disconnected'',
                         amessage = ''Microphone disconnected! Please reconnect immediately.'',
                         asev = Some Error \<rparr> s2
         else s2)"

definition onViolation :: "violation \<Rightarrow> exam_state \<Rightarrow> exam_state" where
  "onViolation v s =
     terminateExam False (vmessage v)
       (addAlert \<lparr> atype = vtype v, amessage = vmessage v, asev = Some Error \<rparr> s)"

text \<open>
  The zero-delay timer queued by \<open>addAlert\<close> for an immediate-stop type: it dispatches a
  \<^verbatim>\<open>blur\<close> event on the window, which the listener \<open>handleBlur\<close> receives.
\<close>

definition blurTimeout :: "exam_state \<Rightarrow> exam_state" where
  "blurTimeout s =
     (if pendingBlur s = 0 then s
      else handleBlur (s\<lparr> pendingBlur := pendingBlur s - 1 \<rparr>))"

subsection \<open>Events of one tab, handled one at a time\<close>

datatype event =
    VisibilityChange bool
  | Focus
  | Blur
  | FullscreenChange bool
  | KeyDown key_event
  | ContextMenu
  | Copy
  | Cut
  | Paste
  | BeforeUnload
  | StatusChange string string
  | Violation violation
  | BlurTimeout
  | AlertTimeout nat
  | TimerTick

fun handle :: "event \<Rightarrow> exam_state \<Rightarrow> exam_state" where
  "handle (VisibilityChange hidden) s = handleVisibilityChange hidden s"
| "handle Focus s = handleFocus s"
| "handle Blur s = handleBlur s"
| "handle (FullscreenChange el) s = handleFullscreenChange el s"
| "handle (KeyDown e) s = handleKeyDown e s"
| "handle ContextMenu s = handleContextMenu s"
| "handle Copy s = handleCopy s"
| "handle Cut s = handleCut s"
| "handle Paste s = handlePaste s"
| "handle BeforeUnload s = handleBeforeUnload s"
| "handle (StatusChange camera mic) s = onStatusChange camera mic s"
| "handle (Violation v) s = onViolation v s"
| "handle BlurTimeout s = blurTimeout s"
| "handle (AlertTimeout i) s = expireAlert i s"
| "handle TimerTick s = timerTick s"

fun run :: "event list \<Rightarrow> exam_state \<Rightarrow> exam_state" where
  "run [] s = s"
| "run (e # es) s = run es (handle e s)"

text \<open>The dialogs that a run of \<open>terminateExam\<close> has opened.\<close>

definition terminationDialogs :: "exam_state \<Rightarrow> string list" where
  "terminationDialogs s = filter (\<lambda>d. startsWith d ''Exam terminated: '') (dialogs s)"

section \<open>Detection of a second tab\<close>

text \<open>
  The effect that guards against a second tab reads and writes one key of the browser's
  local storage, listens to storage events, and announces itself on a broadcast channel
  100 ms after it has claimed the key. A tab is the exam state together with what the
  effect has registered.
\<close>

definition KEY :: string where
  "KEY = ''exam_active_instance_id''"

record tab =
  instanceId :: string
  exam :: exam_state
  storageListener :: bool
  channelOpen :: bool
  presenceQueued :: bool

definition newTab :: "string \<Rightarrow> tab" where
  "newTab i = \<lparr> instanceId = i, exam = initialExam, storageListener = False,
                channelOpen = False, presenceQueued = False \<rparr>"

text \<open>
  The body of the effect, which depends on \<^verbatim>\<open>examTerminated\<close> and so runs, with its
  listeners, on the current value. \<open>bcSupported\<close> says whether the \<^verbatim>\<open>BroadcastChannel\<close>
  constructor succeeds; when it throws, the effect goes on without a channel.
\<close>

definition multiTabEffect ::
  "bool \<Rightarrow> (string \<rightharpoonup> string) \<Rightarrow> tab \<Rightarrow> (string \<rightharpoonup> string) \<times> tab" where
  "multiTabEffect bcSupported localStorage t =
     (if examTerminated (exam t) then (localStorage, t)
      else
        let myId = instanceId t;
            existing = localStorage KEY
        in if truthy existing \<and> existing \<noteq> Some myId
           then (localStorage,
                 t\<lparr> exam := terminateExam (examTerminated (exam t))
                             ''Multiple exam tabs detected (storage lock)'' (exam t) \<rparr>)
           else (localStorage(KEY \<mapsto> myId),
                 t\<lparr> storageListener := True, channelOpen := bcSupported,
                    presenceQueued := bcSupported \<rparr>))"

text \<open>The storage listener, given \<^verbatim>\<open>e.key\<close> and \<^verbatim>\<open>e.newValue\<close>.\<close>

definition onStorage :: "string option \<Rightarrow> string option \<Rightarrow> tab \<Rightarrow> tab" where
  "onStorage k newValue t =
     (if storageListener t \<and> k = Some KEY \<and> truthy newValue \<and> newValue \<noteq> Some (instanceId t)
      then t\<lparr> exam := terminateExam (examTerminated (exam t))
                         ''Multiple exam tabs detected'' (exam t) \<rparr>
      else t)"

record presence_message =
  mtype :: "string option"
  mid :: "string option"

definition onMessage :: "presence_message \<Rightarrow> tab \<Rightarrow> tab" where
  "onMessage m t =
     (if channelOpen t \<and> mtype m = Some ''presence'' \<and> truthy (mid m)
         \<and> mid m \<noteq> Some (instanceId t)
      then t\<lparr> exam := terminateExam (examTerminated (exam t))
                         ''Multiple exam tabs detected (broadcast)'' (exam t) \<rparr>
      else t)"

text \<open>The 100 ms timer: the tab posts its presence, when its channel is still open.\<close>

definition presenceTimeout :: "tab \<Rightarrow> tab \<times> presence_message option" where
  "presenceTimeout t =
     (if presenceQueued t
      then (t\<lparr> presenceQueued := False \<rparr>,
            if channelOpen t
            then Some \<lparr> mtype = Some ''presence'', mid = Some (instanceId t) \<rparr>
            else None)
      else (t, None))"

text \<open>
  The cleanup of the effect, which runs when \<open>examTerminated\<close> has changed: it exists only
  when the effect got as far as registering its listener.
\<close>

definition multiTabCleanup :: "(string \<rightharpoonup> string) \<Rightarrow> tab \<Rightarrow> (string \<rightharpoonup> string) \<times> tab" where
  "multiTabCleanup localStorage t =
     (if storageListener t
      then ((if localStorage KEY = Some (instanceId t) then localStorage(KEY := None)
             else localStorage),
            t\<lparr> storageListener := False, channelOpen := False, presenceQueued := False \<rparr>)
      else (localStorage, t))"

subsection \<open>Two tabs of one browser\<close>

text \<open>
  The browser delivers a storage event to the other tab when a write changes the value of
  a key, and a message posted on the channel to the other tab.
\<close>

datatype side = TabA | TabB

record world =
  storage :: "string \<rightharpoonup> string"
  tabA :: tab
  tabB :: tab

fun other :: "side \<Rightarrow> side" where
  "other TabA = TabB"
| "other TabB = TabA"

fun getTab :: "side \<Rightarrow> world \<Rightarrow> tab" where
  "getTab TabA w = tabA w"
| "getTab TabB w = tabB w"

fun putTab :: "side \<Rightarrow> tab \<Rightarrow> world \<Rightarrow> world" where
  "putTab TabA t w = w\<lparr> tabA := t \<rparr>"
| "putTab TabB t w = w\<lparr> tabB := t \<rparr>"

definition rerender :: "side \<Rightarrow> world \<Rightarrow> world" where
  "rerender x w =
     (if examTerminated (exam (getTab x w))
      then (case multiTabCleanup (storage w) (getTab x w) of
              (st, t) \<Rightarrow> putTab x t (w\<lparr> storage := st \<rparr>))
      else w)"

definition mountTab :: "side \<Rightarrow> world \<Rightarrow> world" where
  "mountTab x w =
     (case multiTabEffect True (storage w) (getTab x w) of
        (st, t) \<Rightarrow>
          let w1 = putTab x t (w\<lparr> storage := st \<rparr>);
              w2 = (if st KEY \<noteq> storage w KEY
                    then putTab (other x) (onStorage (Some KEY) (st KEY) (getTab (other x) w1)) w1
                    else w1)
          in rerender (other x) (rerender x w2))"

definition presenceFires :: "side \<Rightarrow> world \<Rightarrow> world" where
  "presenceFires x w =
     (case presenceTimeout (getTab x w) of
        (t, posted) \<Rightarrow>
          let w1 = putTab x t w;
              w2 = (case posted of
                      None \<Rightarrow> w1
                    | Some m \<Rightarrow> putTab (other x) (onMessage m (getTab (other x) w1)) w1)
          in rerender (other x) w2)"

datatype tab_event = Mount side | PresenceTimer side

fun tabStep :: "tab_event \<Rightarrow> world \<Rightarrow> world" where
  "tabStep (Mount x) w = mountTab x w"
| "tabStep (PresenceTimer x) w = presenceFires x w"

fun tabRun :: "tab_event list \<Rightarrow> world \<Rightarrow> world" where
  "tabRun [] w = w"
| "tabRun (e # es) w = tabRun es (tabStep e w)"

definition freshWorld :: "string \<Rightarrow> string \<Rightarrow> world" where
  "freshWorld a b = \<lparr> storage = Map.empty, tabA = newTab a, tabB = newTab b \<rparr>"

section \<open>The camera feed: \<^verbatim>\<open>captureAndAnalyze\<close>\<close>

text \<open>
  The refs of the component are a record. One tick of the analysis timer takes what the
  tick observes and returns the new refs and the violation it hands to \<^verbatim>\<open>onViolation\<close>,
  if any: every call of \<^verbatim>\<open>onViolation\<close> is followed by \<^verbatim>\<open>return\<close>, so a tick emits at most
  one. The floating-point statistics that the tick computes from the pixels (luminance,
  Laplacian variance, band means) are inputs of the tick, and so is the answer of the
  analysis service.
\<close>

record feed_state =
  consecutiveGazeAway :: nat
  startFrames :: nat
  consecutiveDarkFrames :: nat
  consecutiveNoFace :: nat
  consecutiveBlurFrames :: nat
  initialFaceId :: "string option"
  lastFaceId :: "string option"
  consecutiveOcclusion :: nat

definition initialFeed :: feed_state where
  "initialFeed = \<lparr> consecutiveGazeAway = 0, startFrames = 0, consecutiveDarkFrames = 0,
     consecutiveNoFace = 0, consecutiveBlurFrames = 0, initialFaceId = None,
     lastFaceId = None, consecutiveOcclusion = 0 \<rparr>"

text \<open>
  The answer of \<^verbatim>\<open>apiClient.analyzeWithAI\<close>: the call throws, or returns a value of which the
  tick reads \<^verbatim>\<open>labels\<close>, \<^verbatim>\<open>details.face_id\<close> and \<^verbatim>\<open>details.face_signature\<close>, each of which
  may be absent.
\<close>

datatype analysis =
    Failed
  | Result "string list option" "string option" "string option"

text \<open>
  What one tick observes. \<open>notReady\<close> is the first guard (no video element, no drawing
  context, or an analysis still in flight). \<open>luminance\<close> is the mean, the standard
  deviation and the ratio of dark pixels of the frame, absent when reading the pixels
  throws. \<open>faceBox\<close> is the mean luminance of the eye band and of the lower face inside the
  detected face box, absent when no box of more than 10 by 10 pixels was measured;
  \<open>bands\<close> is the mean luminance of the top quarter and of the lower half of the frame;
  \<open>varLap\<close> is the variance of the Laplacian of the downscaled frame.
\<close>

record frame =
  notReady :: bool
  videoWidth :: nat
  videoHeight :: nat
  luminance :: "(real \<times> real \<times> real) option"
  response :: analysis
  faceDetector :: bool
  faceBox :: "(real \<times> real) option"
  bands :: "(real \<times> real) option"
  varLap :: "real option"

definition analysisIntervalMs :: real where
  "analysisIntervalMs = 1000"

definition startEnforcementSeconds :: real where
  "startEnforcementSeconds = 6"

definition seconds :: "nat \<Rightarrow> real" where
  "seconds n = real n * (analysisIntervalMs / 1000)"

type_synonym phase = "feed_state \<Rightarrow> feed_state \<times> violation option"

text \<open>The checks of a tick run in order; the first that emits a violation ends the tick.\<close>

fun runPhases :: "phase list \<Rightarrow> phase" where
  "runPhases [] s = (s, None)"
| "runPhases (p # ps) s =
     (case p s of
        (s1, Some v) \<Rightarrow> (s1, Some v)
      | (s1, None) \<Rightarrow> runPhases ps s1)"

definition darkPhase :: "frame \<Rightarrow> phase" where
  "darkPhase f s =
     (case luminance f of
        None \<Rightarrow> (s, None)
      | Some (mean, stddev, darkRatio) \<Rightarrow>
          let s1 = (if (mean < 20 \<and> stddev < 12) \<or> darkRatio > 0.85
                    then s\<lparr> consecutiveDarkFrames := consecutiveDarkFrames s + 1 \<rparr>
                    else s\<lparr> consecutiveDarkFrames := 0 \<rparr>);
              darkSeconds = seconds (consecutiveDarkFrames s1)
          in if darkSeconds \<ge> 2
             then (s1, Some \<lparr> vtype = ''camera_covered'',
                              vmessage = ''Camera appears covered or too dark'' \<rparr>)
             else (s1, None))"

definition eyesLabelled :: "string list \<Rightarrow> bool" where
  "eyesLabelled labels = list_ex (\<lambda>l. includesStr l ''eyes'') labels"

definition localOcclusionPhase :: "string list \<Rightarrow> frame \<Rightarrow> phase" where
  "localOcclusionPhase labels f s =
     (if \<not> eyesLabelled labels \<and> faceDetector f then
        (case faceBox f of
           None \<Rightarrow> (s, None)
         | Some (eyeMean, lowerMean) \<Rightarrow>
             let s1 = (if lowerMean > 0 \<and> eyeMean / lowerMean < 0.45
                       then s\<lparr> consecutiveOcclusion := consecutiveOcclusion s + 1 \<rparr>
                       else s\<lparr> consecutiveOcclusion := 0 \<rparr>);
                 occSecLocal = seconds (consecutiveOcclusion s1)
             in if occSecLocal \<ge> 1.5
                then (s1, Some \<lparr> vtype = ''eyes_occluded_local'',
                                 vmessage = ''Eyes likely occluded/not visible'' \<rparr>)
                else (s1, None))
      else (s, None))"

definition simpleOcclusionPhase :: "string list \<Rightarrow> frame \<Rightarrow> phase" where
  "simpleOcclusionPhase labels f s =
     (if \<not> eyesLabelled labels \<and> \<not> faceDetector f then
        (case bands f of
           None \<Rightarrow> (s, None)
         | Some (topMean, lowMean) \<Rightarrow>
             let s1 = (if lowMean > 0 \<and> topMean / lowMean < 0.5
                       then s\<lparr> consecutiveOcclusion := consecutiveOcclusion s + 1 \<rparr>
                       else s\<lparr> consecutiveOcclusion := 0 \<rparr>);
                 occSecSimple = seconds (consecutiveOcclusion s1)
             in if occSecSimple \<ge> 1.5
                then (s1, Some \<lparr> vtype = ''eyes_occluded_simple'',
                                 vmessage = ''Eyes likely occluded/not visible'' \<rparr>)
                else (s1, None))
      else (s, None))"

definition backgroundPhase :: "string list \<Rightarrow> phase" where
  "backgroundPhase labels s =
     (if ''background_motion'' \<in> set labels \<or> ''animated_background'' \<in> set labels
         \<or> ''virtual_background'' \<in> set labels
      then (s, Some \<lparr> vtype = ''background_violation'',
                      vmessage = ''Background movement or virtual background detected'' \<rparr>)
      else (s, None))"

definition multipleFacesPhase :: "string list \<Rightarrow> phase" where
  "multipleFacesPhase labels s =
     (if ''multiple_faces'' \<in> set labels
      then (s, Some \<lparr> vtype = ''multiple_faces'', vmessage = ''Multiple faces detected'' \<rparr>)
      else (s, None))"

definition phonePhase :: "string list \<Rightarrow> phase" where
  "phonePhase labels s =
     (if ''phone_detected'' \<in> set labels \<or> ''mobile_phone'' \<in> set labels
      then (s, Some \<lparr> vtype = ''phone_detected'',
                      vmessage = ''Phone detected in camera view'' \<rparr>)
      else (s, None))"

definition startPhase :: "string list \<Rightarrow> frame \<Rightarrow> phase" where
  "startPhase labels f s =
     (if seconds (startFrames s) < startEnforcementSeconds then
        let s1 = s\<lparr> startFrames := startFrames s + 1 \<rparr>
        in if ''face_covered'' \<in> set labels \<or> ''no_face'' \<in> set labels
              \<or> ''face_present'' \<notin> set labels
           then (s1, Some \<lparr> vtype = ''face_not_visible_at_start'',
                            vmessage = ''Face not clearly visible at exam start'' \<rparr>)
           else
             (case varLap f of
                None \<Rightarrow> (s1, None)
              | Some v \<Rightarrow>
                  let s2 = (if v < 55
                            then s1\<lparr> consecutiveBlurFrames := consecutiveBlurFrames s1 + 1 \<rparr>
                            else s1\<lparr> consecutiveBlurFrames := 0 \<rparr>);
                      blurSeconds = seconds (consecutiveBlurFrames s2)
                  in if blurSeconds \<ge> 2
                     then (s2, Some \<lparr> vtype = ''face_blurred_start'',
                                      vmessage = ''Face too blurred at exam start'' \<rparr>)
                     else (s2, None))
      else (s, None))"

definition emDash :: string where
  "emDash = [CHR 0xE2, CHR 0x80, CHR 0x94]"

definition faceSwitchPhase :: "string option \<Rightarrow> string option \<Rightarrow> phase" where
  "faceSwitchPhase face_id face_signature s =
     (case (if truthy face_id then face_id else if truthy face_signature then face_signature
            else None) of
        None \<Rightarrow> (s, None)
      | Some currentId \<Rightarrow>
          let s1 = (if \<not> truthy (initialFaceId s) then s\<lparr> initialFaceId := Some currentId \<rparr>
                    else s)
          in if truthy (lastFaceId s1) \<and> Some currentId \<noteq> lastFaceId s1
                \<and> Some currentId \<noteq> initialFaceId s1
             then (s1, Some \<lparr> vtype = ''face_switched'',
                              vmessage = ''Different face detected '' @ emDash
                                @ '' exam terminated'' \<rparr>)
             else (s1\<lparr> lastFaceId := Some currentId \<rparr>, None))"

definition noFacePhase :: "string list \<Rightarrow> phase" where
  "noFacePhase labels s =
     (let s1 = (if ''no_face'' \<in> set labels \<or> ''face_present'' \<notin> set labels
                then s\<lparr> consecutiveNoFace := consecutiveNoFace s + 1 \<rparr>
                else s\<lparr> consecutiveNoFace := 0 \<rparr>);
          noFaceSeconds = seconds (consecutiveNoFace s1)
      in if noFaceSeconds \<ge> 5
         then (s1, Some \<lparr> vtype = ''face_missing'',
                          vmessage = ''Face not visible for too long'' \<rparr>)
         else (s1, None))"

definition gazePhase :: "string list \<Rightarrow> phase" where
  "gazePhase labels s =
     (let s1 = (if ''gaze_away'' \<in> set labels \<or> ''looking_away'' \<in> set labels
                then s\<lparr> consecutiveGazeAway := consecutiveGazeAway s + 1 \<rparr>
                else s\<lparr> consecutiveGazeAway := 0 \<rparr>);
          gazeAwaySeconds = seconds (consecutiveGazeAway s1)
      in if gazeAwaySeconds \<ge> 5
         then (s1, Some \<lparr> vtype = ''gaze_away_prolonged'',
                          vmessage = ''Prolonged gaze away from screen'' \<rparr>)
         else (s1, None))"

definition occlusionLabels :: "string list" where
  "occlusionLabels = [''eyes_closed'', ''eyes_not_visible'', ''no_eyes'', ''eye_not_detected'',
     ''face_occluded'', ''face_covered'', ''mask'', ''sunglasses'']"

definition occlusionPhase :: "string list \<Rightarrow> phase" where
  "occlusionPhase labels s =
     (let hasOcclusion = list_ex (\<lambda>l. l \<in> set occlusionLabels) labels;
          s1 = (if hasOcclusion
                then s\<lparr> consecutiveOcclusion := consecutiveOcclusion s + 1 \<rparr>
                else s\<lparr> consecutiveOcclusion := 0 \<rparr>);
          occlusionSeconds = seconds (consecutiveOcclusion s1)
      in if occlusionSeconds \<ge> 2
         then (s1, Some \<lparr> vtype = ''face_or_eyes_occluded'',
                          vmessage = ''Face or eyes are occluded/not visible'' \<rparr>)
         else (s1, None))"

text \<open>
  The checks that read the answer of the analysis service, in the order of the source.
  \<^verbatim>\<open>result?.labels || []\<close> makes absent labels the empty list.
\<close>

definition labelPhases ::
  "string list option \<Rightarrow> string option \<Rightarrow> string option \<Rightarrow> frame \<Rightarrow> phase" where
  "labelPhases result_labels face_id face_signature f =
     (let labels = (case result_labels of None \<Rightarrow> [] | Some ls \<Rightarrow> ls)
      in runPhases
           [localOcclusionPhase labels f,
            simpleOcclusionPhase labels f,
            backgroundPhase labels,
            multipleFacesPhase labels,
            phonePhase labels,
            startPhase labels f,
            faceSwitchPhase face_id face_signature,
            noFacePhase labels,
            gazePhase labels,
            occlusionPhase labels])"

text \<open>
  One tick. When the analysis call throws, the outer \<^verbatim>\<open>catch\<close> ends the tick: the darkness
  counter keeps the update it got before the call, and nothing is emitted.
\<close>

definition captureAndAnalyze :: "frame \<Rightarrow> phase" where
  "captureAndAnalyze f s =
     (if notReady f then (s, None)
      else if videoWidth f = 0 \<or> videoHeight f = 0 then (s, None)
      else
        (case darkPhase f s of
           (s1, Some v) \<Rightarrow> (s1, Some v)
         | (s1, None) \<Rightarrow>
             (case response f of
                Failed \<Rightarrow> (s1, None)
              | Result result_labels face_id face_signature \<Rightarrow>
                  labelPhases result_labels face_id face_signature f s1)))"

text \<open>A sequence of ticks: the final refs and what each tick emitted.\<close>

fun ticks :: "frame list \<Rightarrow> feed_state \<Rightarrow> feed_state \<times> violation option list" where
  "ticks [] s = (s, [])"
| "ticks (f # fs) s =
     (case captureAndAnalyze f s of
        (s1, v) \<Rightarrow> (case ticks fs s1 of (s2, vs) \<Rightarrow> (s2, v # vs)))"


subsection \<open>Kinds of ticks\<close>



definition cameraCovered :: violation where
  "cameraCovered = \<lparr> vtype = ''camera_covered'',
     vmessage = ''Camera appears covered or too dark'' \<rparr>"



definition currentIdOf :: "analysis \<Rightarrow> string option" where
  "currentIdOf r =
     (case r of
        Failed \<Rightarrow> None
      | Result ls face_id face_signature \<Rightarrow>
          if truthy face_id then face_id
          else if truthy face_signature then face_signature else None)"




text \<open>
  The two identity refs agree: both are unset, or the first identity is set and the last
  one equals it.
\<close>

definition idsAgree :: "feed_state \<Rightarrow> bool" where
  "idsAgree s =
     ((initialFaceId s = None \<and> lastFaceId s = None)
      \<or> (truthy (initialFaceId s) \<and> lastFaceId s = initialFaceId s))"


text \<open>
  Two concrete frames: a lit scene of 640 by 480 pixels with a given answer of the
  analysis service, and the same camera covered by a hand.
\<close>

definition litFrame :: "analysis \<Rightarrow> frame" where
  "litFrame r = \<lparr> notReady = False, videoWidth = 640, videoHeight = 480,
     luminance = Some (120, 40, 0.02), response = r, faceDetector = False,
     faceBox = None, bands = Some (110, 100), varLap = Some 180 \<rparr>"


section \<open>Properties of the exam page\<close>

lemma startsWith_append [simp]: "startsWith (p @ r) p"
  by (induction p) auto

lemma addAlert_fields [simp]:
  "examTerminated (addAlert a s) = examTerminated s"
  "dialogs (addAlert a s) = dialogs s"
  "navigations (addAlert a s) = navigations s"
  "timeLeft (addAlert a s) = timeLeft s"
  "tabSwitches (addAlert a s) = tabSwitches s"
  "prevented (addAlert a s) = prevented s"
  "nextId (addAlert a s) = Suc (nextId s)"
  by (simp_all add: addAlert_def Let_def)


lemma terminateExam_flag [simp]:
  "examTerminated (terminateExam seen r s) = (\<not> seen \<or> examTerminated s)"
  by (simp add: terminateExam_def Let_def)

lemma terminateExam_noop: "terminateExam True r s = s"
  by (simp add: terminateExam_def)

lemma terminateExam_navigations:
  "navigations (terminateExam seen r s) =
     (if seen then navigations s else navigations s @ [''/''])"
  by (simp add: terminateExam_def Let_def)

lemma terminateExam_dialogs:
  "dialogs (terminateExam seen r s) =
     (if seen then dialogs s else dialogs s @ [''Exam terminated: '' @ r])"
  by (simp add: terminateExam_def Let_def)


lemma handle_absorbing: "examTerminated s \<Longrightarrow> examTerminated (handle e s)"
  by (cases e)
     (simp_all add: handleVisibilityChange_def handleFocus_def handleBlur_def
      handleFullscreenChange_def handleKeyDown_def handleContextMenu_def handleCopy_def
      handleCut_def handlePaste_def handleBeforeUnload_def onViolation_def
      onStatusChange_def blurTimeout_def expireAlert_def timerTick_def Let_def)

lemma run_absorbing: "examTerminated s \<Longrightarrow> examTerminated (run es s)"
  by (induction es arbitrary: s) (simp_all add: handle_absorbing)

text \<open>
  In a terminated state the listeners, the timers and the status callback add no
  navigation and no termination dialog: their \<open>terminateExam\<close> sees the flag.
\<close>

lemma listener_guard:
  "examTerminated s \<Longrightarrow> \<forall>v. e \<noteq> Violation v \<Longrightarrow>
     navigations (handle e s) = navigations s \<and>
     terminationDialogs (handle e s) = terminationDialogs s"
  by (cases e)
     (simp_all add: handleVisibilityChange_def handleFocus_def handleBlur_def
      handleFullscreenChange_def handleKeyDown_def handleContextMenu_def handleCopy_def
      handleCut_def handlePaste_def handleBeforeUnload_def
      onStatusChange_def blurTimeout_def expireAlert_def timerTick_def Let_def
      terminateExam_navigations terminateExam_dialogs terminationDialogs_def)




text \<open>
  C1. The guard of \<open>terminateExam\<close> does not make termination idempotent for the camera
  feed. Whatever the state, also a terminated one, a violation handed to \<open>onViolation\<close>
  runs the whole termination again: the state after it is terminated, and it has one
  more navigation and one more dialog \<^verbatim>\<open>Exam terminated: \<close> with the message of that
  violation. Two violations in a row thus leave two navigations and two dialogs, and the
  second call is not a no-op.
\<close>

theorem camera_violation_terminates_again:
  "examTerminated (onViolation v s)
   \<and> navigations (onViolation v s) = navigations s @ [''/'']
   \<and> dialogs (onViolation v s) = dialogs s @ [''Exam terminated: '' @ vmessage v]
   \<and> navigations (onViolation w (onViolation v s)) = navigations s @ [''/'', ''/'']
   \<and> dialogs (onViolation w (onViolation v s))
       = dialogs s @ [''Exam terminated: '' @ vmessage v, ''Exam terminated: '' @ vmessage w]
   \<and> onViolation w (onViolation v s) \<noteq> onViolation v s"
proof -
  have one: "navigations (onViolation u t) = navigations t @ [''/'']
      \<and> dialogs (onViolation u t) = dialogs t @ [''Exam terminated: '' @ vmessage u]" for u t
    by (simp add: onViolation_def terminateExam_navigations terminateExam_dialogs)
  have "navigations (onViolation w (onViolation v s)) \<noteq> navigations (onViolation v s)"
    using one [of w "onViolation v s"] by simp
  then have "onViolation w (onViolation v s) \<noteq> onViolation v s" by auto
  then show ?thesis using one [of v s] one [of w "onViolation v s"]
    by (simp add: onViolation_def)
qed

text \<open>
  The same at a concrete input: a covered camera emits \<open>camera_covered\<close> on two ticks in
  a row, and the page, from its initial state, shows two termination alerts, opens two
  termination dialogs and navigates twice.
\<close>

theorem camera_violation_terminates_again_witness:
  "map (\<lambda>a. atype (snd a)) (alerts (run [Violation cameraCovered, Violation cameraCovered] initialExam))
     = [''camera_covered'', ''exam_terminated'', ''camera_covered'', ''exam_terminated'']
   \<and> navigations (run [Violation cameraCovered, Violation cameraCovered] initialExam)
       = [''/'', ''/'']
   \<and> terminationDialogs (run [Violation cameraCovered, Violation cameraCovered] initialExam)
       = [''Exam terminated: Camera appears covered or too dark'',
          ''Exam terminated: Camera appears covered or too dark'']"
  using camera_violation_terminates_again [of cameraCovered initialExam cameraCovered]
  by (simp add: onViolation_def terminateExam_def addAlert_def immediateStopTypes_def
      cameraCovered_def initialExam_def terminationDialogs_def Let_def)



text \<open>
  C9. When fullscreen is left while the session is active, the handler appends exactly one
  alert, of type \<open>fullscreen_exit\<close> and severity \<open>Warning\<close>, and the session stays active:
  no termination, no queued termination callback, no dialog and no navigation.
\<close>

theorem fullscreen_exit_warns_only:
  "\<not> examTerminated s \<Longrightarrow>
     alerts (handleFullscreenChange False s)
       = alerts s @ [(nextId s, \<lparr> atype = ''fullscreen_exit'',
            amessage = ''Fullscreen mode exited - potential cheating attempt!'',
            asev = Some Warning \<rparr>)]
     \<and> \<not> examTerminated (handleFullscreenChange False s)
     \<and> pendingBlur (handleFullscreenChange False s) = pendingBlur s
     \<and> dialogs (handleFullscreenChange False s) = dialogs s
     \<and> navigations (handleFullscreenChange False s) = navigations s"
  by (simp add: handleFullscreenChange_def addAlert_def immediateStopTypes_def Let_def)

theorem fullscreen_exit_warns_only_witness:
  "\<not> examTerminated initialExam
   \<and> alerts (handleFullscreenChange False initialExam)
       = [(0, \<lparr> atype = ''fullscreen_exit'',
            amessage = ''Fullscreen mode exited - potential cheating attempt!'',
            asev = Some Warning \<rparr>)]
   \<and> \<not> examTerminated (handleFullscreenChange False initialExam)"
  using fullscreen_exit_warns_only [of initialExam]
  by (simp add: initialExam_def)

text \<open>
  C6. When the document becomes hidden while the session is active, the handler at once
  terminates the session: the state is terminated, the reason
  \<^verbatim>\<open>Left the exam tab (visibility change)\<close> is what the termination alert and the blocking
  dialog show after the prefix \<^verbatim>\<open>Exam terminated: \<close>, and the page navigates away. The
  tab-switch warning is appended before the termination alert.
\<close>

theorem visibility_change_terminates:
  "\<not> examTerminated s \<Longrightarrow>
     examTerminated (handleVisibilityChange True s)
     \<and> alerts (handleVisibilityChange True s)
         = alerts s @
           [(nextId s, \<lparr> atype = ''tab_switch'',
               amessage = ''Tab switch detected! ('' @ showNat (tabSwitches s + 1) @ '' times)'',
               asev = Some Warning \<rparr>),
            (Suc (nextId s), \<lparr> atype = ''exam_terminated'',
               amessage = ''Exam terminated: Left the exam tab (visibility change)'',
               asev = Some Error \<rparr>)]
     \<and> dialogs (handleVisibilityChange True s)
         = dialogs s @ [''Exam terminated: Left the exam tab (visibility change)'']
     \<and> navigations (handleVisibilityChange True s) = navigations s @ [''/'']"
  by (simp add: handleVisibilityChange_def terminateExam_def addAlert_def
      immediateStopTypes_def Let_def)

theorem visibility_change_terminates_witness:
  "\<not> examTerminated initialExam
   \<and> examTerminated (handleVisibilityChange True initialExam)
   \<and> dialogs (handleVisibilityChange True initialExam)
       = [''Exam terminated: Left the exam tab (visibility change)'']
   \<and> navigations (handleVisibilityChange True initialExam) = [''/'']"
  using visibility_change_terminates [of initialExam]
  by (simp add: initialExam_def)

lemma run_ticks_active:
  "\<not> examTerminated s \<Longrightarrow> navigations s = [] \<Longrightarrow>
   \<not> examTerminated (run (replicate n TimerTick) s) \<and> navigations (run (replicate n TimerTick) s) = []"
  by (induction n arbitrary: s) (simp_all add: timerTick_def)

text \<open>
  C10. A tick of the countdown changes the remaining time and, at zero, opens the
  time's-up dialog; it leaves the termination flag, the navigations, the alerts and the
  queued callbacks as they are. With one second or less left the time becomes 0 and the
  dialog opens; otherwise the time goes down by one and no dialog opens. However many
  ticks follow the start of the exam, the session is still active and nothing has
  navigated away.
\<close>

theorem timeout_never_terminates:
  "examTerminated (timerTick s) = examTerminated s
   \<and> navigations (timerTick s) = navigations s
   \<and> alerts (timerTick s) = alerts s
   \<and> pendingBlur (timerTick s) = pendingBlur s
   \<and> (timeLeft s \<le> 1 \<longrightarrow>
        timeLeft (timerTick s) = 0
        \<and> dialogs (timerTick s) = dialogs s @ [''Time's up! Your exam has been submitted.''])
   \<and> (1 < timeLeft s \<longrightarrow>
        timeLeft (timerTick s) = timeLeft s - 1 \<and> dialogs (timerTick s) = dialogs s)
   \<and> \<not> examTerminated (run (replicate n TimerTick) initialExam)
   \<and> navigations (run (replicate n TimerTick) initialExam) = []"
proof -
  have "\<not> examTerminated initialExam" "navigations initialExam = []"
    by (simp_all add: initialExam_def)
  from run_ticks_active [OF this, of n] show ?thesis
    by (simp add: timerTick_def)
qed

theorem timeout_never_terminates_witness:
  "timeLeft (timerTick (initialExam\<lparr> timeLeft := 1 \<rparr>)) = 0
   \<and> dialogs (timerTick (initialExam\<lparr> timeLeft := 1 \<rparr>))
       = [''Time's up! Your exam has been submitted.'']
   \<and> \<not> examTerminated (timerTick (initialExam\<lparr> timeLeft := 1 \<rparr>))
   \<and> timeLeft (timerTick initialExam) = 3599
   \<and> \<not> examTerminated (run (replicate 3 TimerTick) initialExam)"
  using timeout_never_terminates [of "initialExam\<lparr> timeLeft := 1 \<rparr>" 3]
    timeout_never_terminates [of initialExam 3]
  by (simp add: initialExam_def)

section \<open>Properties of the detection of a second tab\<close>

lemma mount_first:
  "mountTab TabA (freshWorld a b)
     = \<lparr> storage = [KEY \<mapsto> a],
         tabA = \<lparr> instanceId = a, exam = initialExam, storageListener = True,
                   channelOpen = True, presenceQueued = True \<rparr>,
         tabB = newTab b \<rparr>"
  by (simp add: mountTab_def freshWorld_def multiTabEffect_def newTab_def initialExam_def
      rerender_def onStorage_def Let_def)

lemma mount_second:
  assumes "a \<noteq> []" "a \<noteq> b" "\<not> examTerminated (exam ta)" "instanceId ta = a"
  shows "mountTab TabB \<lparr> storage = [KEY \<mapsto> a], tabA = ta, tabB = newTab b \<rparr>
     = \<lparr> storage = [KEY \<mapsto> a], tabA = ta,
         tabB = (newTab b)\<lparr> exam :=
           terminateExam False ''Multiple exam tabs detected (storage lock)'' initialExam \<rparr> \<rparr>"
  using assms
  by (simp add: mountTab_def multiTabEffect_def newTab_def rerender_def multiTabCleanup_def
      initialExam_def Let_def)

lemma presence_quiet:
  assumes "\<not> examTerminated (exam (tabA w))" "\<not> channelOpen (tabB w)"
    "\<not> presenceQueued (tabB w)" "\<not> storageListener (tabB w)"
  shows "exam (tabA (presenceFires x w)) = exam (tabA w)
         \<and> tabB (presenceFires x w) = tabB w
         \<and> storage (presenceFires x w) = storage w"
  using assms
  by (cases x)
     (simp_all add: presenceFires_def presenceTimeout_def onMessage_def rerender_def
       multiTabCleanup_def Let_def)

lemma presence_run_quiet:
  assumes "\<forall>e\<in>set es. \<exists>x. e = PresenceTimer x"
    "\<not> examTerminated (exam (tabA w))" "\<not> channelOpen (tabB w)"
    "\<not> presenceQueued (tabB w)" "\<not> storageListener (tabB w)"
  shows "exam (tabA (tabRun es w)) = exam (tabA w)
         \<and> tabB (tabRun es w) = tabB w
         \<and> storage (tabRun es w) = storage w"
  using assms
proof (induction es arbitrary: w)
  case Nil
  show ?case by simp
next
  case (Cons e es)
  then obtain x where e: "e = PresenceTimer x" by auto
  let ?w = "presenceFires x w"
  have step: "exam (tabA ?w) = exam (tabA w) \<and> tabB ?w = tabB w \<and> storage ?w = storage w"
    using Cons.prems(2-5) by (rule presence_quiet)
  have "exam (tabA (tabRun es ?w)) = exam (tabA ?w)
         \<and> tabB (tabRun es ?w) = tabB ?w
         \<and> storage (tabRun es ?w) = storage ?w"
    using Cons.prems step by (intro Cons.IH) simp_all
  with step e show ?case by simp
qed

text \<open>
  C5, as the code has it. Tab A opens the exam with an identifier that is not empty and
  claims the marker; tab B then opens it with another identifier. Tab B finds the
  identifier of A under the marker and terminates itself with the reason
  \<^verbatim>\<open>Multiple exam tabs detected (storage lock)\<close>: it does not claim the marker, registers
  no listener and opens no channel. Tab A is notified of nothing: its exam state is the
  initial one, it stays active and the marker stays its own, also after any number of
  presence timers have fired in either tab.
\<close>

theorem second_tab_terminates_itself:
  assumes "a \<noteq> []" and "a \<noteq> b" and "\<forall>e\<in>set es. \<exists>x. e = PresenceTimer x"
  shows "exam (tabA (tabRun (Mount TabA # Mount TabB # es) (freshWorld a b))) = initialExam
     \<and> exam (tabB (tabRun (Mount TabA # Mount TabB # es) (freshWorld a b)))
         = terminateExam False ''Multiple exam tabs detected (storage lock)'' initialExam
     \<and> \<not> storageListener (tabB (tabRun (Mount TabA # Mount TabB # es) (freshWorld a b)))
     \<and> \<not> channelOpen (tabB (tabRun (Mount TabA # Mount TabB # es) (freshWorld a b)))
     \<and> storage (tabRun (Mount TabA # Mount TabB # es) (freshWorld a b)) KEY = Some a"
proof -
  let ?ta = "\<lparr> instanceId = a, exam = initialExam, storageListener = True,
                channelOpen = True, presenceQueued = True \<rparr>"
  let ?w = "\<lparr> storage = [KEY \<mapsto> a], tabA = ?ta,
         tabB = (newTab b)\<lparr> exam :=
           terminateExam False ''Multiple exam tabs detected (storage lock)'' initialExam \<rparr> \<rparr>"
  have "\<not> examTerminated (exam ?ta)" by (simp add: initialExam_def)
  from mount_second [OF assms(1,2) this]
  have two: "tabRun (Mount TabA # Mount TabB # es) (freshWorld a b) = tabRun es ?w"
    by (simp add: mount_first)
  have "exam (tabA (tabRun es ?w)) = exam (tabA ?w)
         \<and> tabB (tabRun es ?w) = tabB ?w
         \<and> storage (tabRun es ?w) = storage ?w"
    using assms(3) by (rule presence_run_quiet) (simp_all add: initialExam_def newTab_def)
  with two show ?thesis by (simp add: newTab_def)
qed

theorem second_tab_terminates_itself_witness:
  "examTerminated (exam (tabB (tabRun [Mount TabA, Mount TabB, PresenceTimer TabA, PresenceTimer TabB]
      (freshWorld ''1730000000000-k3x9'' ''1730000000750-q7m2''))))
   \<and> \<not> examTerminated (exam (tabA (tabRun [Mount TabA, Mount TabB, PresenceTimer TabA, PresenceTimer TabB]
      (freshWorld ''1730000000000-k3x9'' ''1730000000750-q7m2''))))
   \<and> dialogs (exam (tabB (tabRun [Mount TabA, Mount TabB, PresenceTimer TabA, PresenceTimer TabB]
      (freshWorld ''1730000000000-k3x9'' ''1730000000750-q7m2''))))
      = [''Exam terminated: Multiple exam tabs detected (storage lock)'']"
  using second_tab_terminates_itself [of "''1730000000000-k3x9''" "''1730000000750-q7m2''"
      "[PresenceTimer TabA, PresenceTimer TabB]"]
  by (simp add: initialExam_def terminateExam_def addAlert_def immediateStopTypes_def Let_def)

text \<open>
  C5 as stated fails: with two concrete identifiers, after A and then B have opened the
  exam and both presence timers have fired, A is still active and B is terminated.
\<close>

theorem second_tab_counterexample:
  "\<not> examTerminated (exam (tabA (tabRun [Mount TabA, Mount TabB, PresenceTimer TabA, PresenceTimer TabB]
          (freshWorld ''1730000000000-k3x9'' ''1730000000750-q7m2''))))
   \<and> examTerminated (exam (tabB (tabRun [Mount TabA, Mount TabB, PresenceTimer TabA, PresenceTimer TabB]
          (freshWorld ''1730000000000-k3x9'' ''1730000000750-q7m2''))))"
  by (simp add: freshWorld_def newTab_def mountTab_def presenceFires_def multiTabEffect_def
      presenceTimeout_def onStorage_def onMessage_def rerender_def multiTabCleanup_def
      terminateExam_def addAlert_def immediateStopTypes_def initialExam_def KEY_def Let_def)

section \<open>Properties of the camera feed\<close>

lemma seconds_ge_2 [simp]: "(2 \<le> seconds n) = (2 \<le> n)"
  by (simp add: seconds_def analysisIntervalMs_def)

lemma seconds_ge_5 [simp]: "(5 \<le> seconds n) = (5 \<le> n)"
  by (simp add: seconds_def analysisIntervalMs_def)

lemma seconds_lt_start [simp]: "(seconds n < startEnforcementSeconds) = (n < 6)"
  by (simp add: seconds_def analysisIntervalMs_def startEnforcementSeconds_def)

lemma seconds_ge_1_5 [simp]: "(1.5 \<le> seconds n) = (2 \<le> n)"
proof -
  have "(3 / 2 \<le> real n) = (2 \<le> n)" by linarith
  then show ?thesis by (simp add: seconds_def analysisIntervalMs_def)
qed

lemma runPhases_inv:
  assumes "\<And>p t. p \<in> set ps \<Longrightarrow> Q t \<Longrightarrow> Q (fst (p t)) \<and> (\<forall>v. snd (p t) = Some v \<longrightarrow> R v)"
    and "Q s"
  shows "Q (fst (runPhases ps s)) \<and> (\<forall>v. snd (runPhases ps s) = Some v \<longrightarrow> R v)"
  using assms
proof (induction ps arbitrary: s)
  case Nil
  then show ?case by simp
next
  case (Cons p ps)
  have here: "Q (fst (p s)) \<and> (\<forall>v. snd (p s) = Some v \<longrightarrow> R v)"
    using Cons.prems(1) [of p s] Cons.prems(2) by simp
  show ?case
  proof (cases "snd (p s)")
    case None
    then have "runPhases (p # ps) s = runPhases ps (fst (p s))"
      by (cases "p s") simp
    moreover have "Q (fst (q t)) \<and> (\<forall>v. snd (q t) = Some v \<longrightarrow> R v)"
      if "q \<in> set ps" "Q t" for q t
      using that Cons.prems(1) [of q t] by simp
    then have "Q (fst (runPhases ps (fst (p s))))
        \<and> (\<forall>v. snd (runPhases ps (fst (p s))) = Some v \<longrightarrow> R v)"
      using here by (intro Cons.IH) simp_all
    ultimately show ?thesis by simp
  next
    case (Some v)
    then have "runPhases (p # ps) s = (fst (p s), Some v)"
      by (cases "p s") simp
    with here Some show ?thesis by simp
  qed
qed


lemma darkPhase_keeps [simp]:
  "consecutiveGazeAway (fst (darkPhase f s)) = consecutiveGazeAway s"
  "startFrames (fst (darkPhase f s)) = startFrames s"
  "consecutiveNoFace (fst (darkPhase f s)) = consecutiveNoFace s"
  "consecutiveBlurFrames (fst (darkPhase f s)) = consecutiveBlurFrames s"
  "initialFaceId (fst (darkPhase f s)) = initialFaceId s"
  "lastFaceId (fst (darkPhase f s)) = lastFaceId s"
  "consecutiveOcclusion (fst (darkPhase f s)) = consecutiveOcclusion s"
  by (simp_all add: darkPhase_def Let_def split: option.split prod.split)

lemma localOcclusionPhase_keeps [simp]:
  "consecutiveGazeAway (fst (localOcclusionPhase ls f s)) = consecutiveGazeAway s"
  "startFrames (fst (localOcclusionPhase ls f s)) = startFrames s"
  "consecutiveDarkFrames (fst (localOcclusionPhase ls f s)) = consecutiveDarkFrames s"
  "consecutiveNoFace (fst (localOcclusionPhase ls f s)) = consecutiveNoFace s"
  "consecutiveBlurFrames (fst (localOcclusionPhase ls f s)) = consecutiveBlurFrames s"
  "initialFaceId (fst (localOcclusionPhase ls f s)) = initialFaceId s"
  "lastFaceId (fst (localOcclusionPhase ls f s)) = lastFaceId s"
  by (simp_all add: localOcclusionPhase_def Let_def split: option.split prod.split)

lemma simpleOcclusionPhase_keeps [simp]:
  "consecutiveGazeAway (fst (simpleOcclusionPhase ls f s)) = consecutiveGazeAway s"
  "startFrames (fst (simpleOcclusionPhase ls f s)) = startFrames s"
  "consecutiveDarkFrames (fst (simpleOcclusionPhase ls f s)) = consecutiveDarkFrames s"
  "consecutiveNoFace (fst (simpleOcclusionPhase ls f s)) = consecutiveNoFace s"
  "consecutiveBlurFrames (fst (simpleOcclusionPhase ls f s)) = consecutiveBlurFrames s"
  "initialFaceId (fst (simpleOcclusionPhase ls f s)) = initialFaceId s"
  "lastFaceId (fst (simpleOcclusionPhase ls f s)) = lastFaceId s"
  by (simp_all add: simpleOcclusionPhase_def Let_def split: option.split prod.split)

lemma labelOnly_keeps [simp]:
  "fst (backgroundPhase ls s) = s"
  "fst (multipleFacesPhase ls s) = s"
  "fst (phonePhase ls s) = s"
  by (simp_all add: backgroundPhase_def multipleFacesPhase_def phonePhase_def)

lemma startPhase_keeps [simp]:
  "consecutiveGazeAway (fst (startPhase ls f s)) = consecutiveGazeAway s"
  "consecutiveDarkFrames (fst (startPhase ls f s)) = consecutiveDarkFrames s"
  "consecutiveNoFace (fst (startPhase ls f s)) = consecutiveNoFace s"
  "initialFaceId (fst (startPhase ls f s)) = initialFaceId s"
  "lastFaceId (fst (startPhase ls f s)) = lastFaceId s"
  "consecutiveOcclusion (fst (startPhase ls f s)) = consecutiveOcclusion s"
  by (simp_all add: startPhase_def Let_def split: option.split)

lemma faceSwitchPhase_keeps [simp]:
  "consecutiveGazeAway (fst (faceSwitchPhase a b s)) = consecutiveGazeAway s"
  "startFrames (fst (faceSwitchPhase a b s)) = startFrames s"
  "consecutiveDarkFrames (fst (faceSwitchPhase a b s)) = consecutiveDarkFrames s"
  "consecutiveNoFace (fst (faceSwitchPhase a b s)) = consecutiveNoFace s"
  "consecutiveBlurFrames (fst (faceSwitchPhase a b s)) = consecutiveBlurFrames s"
  "consecutiveOcclusion (fst (faceSwitchPhase a b s)) = consecutiveOcclusion s"
  by (simp_all add: faceSwitchPhase_def Let_def split: option.split)

lemma noFacePhase_keeps [simp]:
  "consecutiveGazeAway (fst (noFacePhase ls s)) = consecutiveGazeAway s"
  "startFrames (fst (noFacePhase ls s)) = startFrames s"
  "consecutiveDarkFrames (fst (noFacePhase ls s)) = consecutiveDarkFrames s"
  "consecutiveBlurFrames (fst (noFacePhase ls s)) = consecutiveBlurFrames s"
  "initialFaceId (fst (noFacePhase ls s)) = initialFaceId s"
  "lastFaceId (fst (noFacePhase ls s)) = lastFaceId s"
  "consecutiveOcclusion (fst (noFacePhase ls s)) = consecutiveOcclusion s"
  by (simp_all add: noFacePhase_def Let_def)

lemma gazePhase_keeps [simp]:
  "startFrames (fst (gazePhase ls s)) = startFrames s"
  "consecutiveDarkFrames (fst (gazePhase ls s)) = consecutiveDarkFrames s"
  "consecutiveNoFace (fst (gazePhase ls s)) = consecutiveNoFace s"
  "consecutiveBlurFrames (fst (gazePhase ls s)) = consecutiveBlurFrames s"
  "initialFaceId (fst (gazePhase ls s)) = initialFaceId s"
  "lastFaceId (fst (gazePhase ls s)) = lastFaceId s"
  "consecutiveOcclusion (fst (gazePhase ls s)) = consecutiveOcclusion s"
  by (simp_all add: gazePhase_def Let_def)

lemma occlusionPhase_keeps [simp]:
  "consecutiveGazeAway (fst (occlusionPhase ls s)) = consecutiveGazeAway s"
  "startFrames (fst (occlusionPhase ls s)) = startFrames s"
  "consecutiveDarkFrames (fst (occlusionPhase ls s)) = consecutiveDarkFrames s"
  "consecutiveNoFace (fst (occlusionPhase ls s)) = consecutiveNoFace s"
  "consecutiveBlurFrames (fst (occlusionPhase ls s)) = consecutiveBlurFrames s"
  "initialFaceId (fst (occlusionPhase ls s)) = initialFaceId s"
  "lastFaceId (fst (occlusionPhase ls s)) = lastFaceId s"
  by (simp_all add: occlusionPhase_def Let_def)






lemma ticks_Cons:
  "ticks (f # fs) s =
     (fst (ticks fs (fst (captureAndAnalyze f s))),
      snd (captureAndAnalyze f s) # snd (ticks fs (fst (captureAndAnalyze f s))))"
  by (simp split: prod.split)

lemma ticks_length [simp]: "length (snd (ticks fs s)) = length fs"
  by (induction fs arbitrary: s) (simp_all add: ticks_Cons del: ticks.simps(2))



lemmas feed_eval = initialFeed_def captureAndAnalyze_def
  labelPhases_def darkPhase_def localOcclusionPhase_def simpleOcclusionPhase_def
  backgroundPhase_def multipleFacesPhase_def phonePhase_def startPhase_def faceSwitchPhase_def
  noFacePhase_def gazePhase_def occlusionPhase_def occlusionLabels_def eyesLabelled_def
  Let_def







lemma seconds_0 [simp]: "seconds 0 = 0"
  by (simp add: seconds_def)
























lemma faceSwitch_initial:
  "truthy (initialFaceId s) \<Longrightarrow> initialFaceId (fst (faceSwitchPhase a b s)) = initialFaceId s"
  by (simp add: faceSwitchPhase_def Let_def split: option.split)

lemma faceSwitch_agree: "idsAgree s \<Longrightarrow> idsAgree (fst (faceSwitchPhase a b s))"
  by (auto simp: idsAgree_def faceSwitchPhase_def Let_def split: option.splits if_splits)

lemma labelPhases_initial:
  "truthy (initialFaceId s) \<Longrightarrow>
   initialFaceId (fst (labelPhases ls a b f s)) = initialFaceId s \<and>
   (\<forall>v. snd (labelPhases ls a b f s) = Some v \<longrightarrow> True)"
  unfolding labelPhases_def Let_def
  by (rule runPhases_inv [where Q = "\<lambda>t. initialFaceId t = initialFaceId s"])
     (auto simp: faceSwitch_initial)

lemma labelPhases_agree:
  "idsAgree s \<Longrightarrow>
   idsAgree (fst (labelPhases ls a b f s)) \<and>
   (\<forall>v. snd (labelPhases ls a b f s) = Some v \<longrightarrow> True)"
  unfolding labelPhases_def Let_def
  by (rule runPhases_inv [where Q = idsAgree])
     (auto simp: faceSwitch_agree, simp_all add: idsAgree_def)

lemma tick_initial:
  assumes "truthy (initialFaceId s)"
  shows "initialFaceId (fst (captureAndAnalyze f s)) = initialFaceId s"
proof -
  obtain s1 v where dp: "darkPhase f s = (s1, v)" by (cases "darkPhase f s")
  have keep: "initialFaceId s1 = initialFaceId s"
    using darkPhase_keeps(5) [of f s] dp by simp
  then have "truthy (initialFaceId s1)" using assms by simp
  from labelPhases_initial [OF this] keep dp show ?thesis
    by (auto simp: captureAndAnalyze_def split: option.splits analysis.splits)
qed

lemma tick_agree:
  assumes "idsAgree s"
  shows "idsAgree (fst (captureAndAnalyze f s))"
proof -
  obtain s1 v where dp: "darkPhase f s = (s1, v)" by (cases "darkPhase f s")
  have "initialFaceId s1 = initialFaceId s" "lastFaceId s1 = lastFaceId s"
    using darkPhase_keeps(5,6) [of f s] dp by simp_all
  then have d: "idsAgree s1" using assms by (simp add: idsAgree_def)
  from labelPhases_agree [OF this] d assms dp show ?thesis
    by (auto simp: captureAndAnalyze_def split: option.splits analysis.splits)
qed

lemma ticks_initial:
  "truthy (initialFaceId s) \<Longrightarrow> initialFaceId (fst (ticks fs s)) = initialFaceId s"
  by (induction fs arbitrary: s) (simp_all add: ticks_Cons tick_initial del: ticks.simps(2))

lemma ticks_agree: "idsAgree s \<Longrightarrow> idsAgree (fst (ticks fs s))"
  by (induction fs arbitrary: s) (simp_all add: ticks_Cons tick_agree del: ticks.simps(2))

text \<open>
  C7, as the code has it. Once the first identity is set, no sequence of ticks changes
  it. From the start of a session the two identity refs agree after every sequence of
  ticks: the last identity, once set, equals the first. With a current signature \<open>c\<close>,
  the identity check emits \<open>face_switched\<close> exactly when the last identity is set and
  \<open>c\<close> differs from both the last and the first identity; when it does not emit, it
  stores \<open>c\<close> as the last identity. So in a state where the refs agree and the last
  identity is set, the check emits exactly when \<open>c\<close> differs from the first identity:
  one differing signature is enough.
\<close>

theorem face_switch_decision:
  "(truthy (initialFaceId s) \<longrightarrow> initialFaceId (fst (ticks fs s)) = initialFaceId s)
   \<and> idsAgree (fst (ticks fs initialFeed))
   \<and> (currentIdOf (Result ls a b) = Some c \<longrightarrow>
        (map_option vtype (snd (faceSwitchPhase a b s)) = Some ''face_switched'')
          = (truthy (lastFaceId s) \<and> Some c \<noteq> lastFaceId s
             \<and> truthy (initialFaceId s) \<and> Some c \<noteq> initialFaceId s)
        \<and> (snd (faceSwitchPhase a b s) = None \<longrightarrow>
             lastFaceId (fst (faceSwitchPhase a b s)) = Some c)
        \<and> (idsAgree s \<and> truthy (lastFaceId s) \<longrightarrow>
             (map_option vtype (snd (faceSwitchPhase a b s)) = Some ''face_switched'')
               = (Some c \<noteq> initialFaceId s)))"
proof (intro conjI impI)
  assume "truthy (initialFaceId s)"
  then show "initialFaceId (fst (ticks fs s)) = initialFaceId s" by (rule ticks_initial)
next
  have "idsAgree initialFeed" by (simp add: idsAgree_def initialFeed_def)
  then show "idsAgree (fst (ticks fs initialFeed))" by (rule ticks_agree)
next
  assume c: "currentIdOf (Result ls a b) = Some c"
  then show fire: "(map_option vtype (snd (faceSwitchPhase a b s)) = Some ''face_switched'')
          = (truthy (lastFaceId s) \<and> Some c \<noteq> lastFaceId s
             \<and> truthy (initialFaceId s) \<and> Some c \<noteq> initialFaceId s)"
    by (auto simp: currentIdOf_def faceSwitchPhase_def Let_def split: if_splits)
  assume "idsAgree s \<and> truthy (lastFaceId s)"
  then show "(map_option vtype (snd (faceSwitchPhase a b s)) = Some ''face_switched'')
               = (Some c \<noteq> initialFaceId s)"
    using fire by (auto simp: idsAgree_def)
next
  assume c: "currentIdOf (Result ls a b) = Some c"
    and "snd (faceSwitchPhase a b s) = None"
  then show "lastFaceId (fst (faceSwitchPhase a b s)) = Some c"
    by (auto simp: currentIdOf_def faceSwitchPhase_def Let_def split: if_splits)
qed

theorem face_switch_decision_witness:
  "initialFaceId (fst (ticks [litFrame (Result (Some [''face_present'']) (Some ''sig-B'') None)]
       (initialFeed\<lparr> initialFaceId := Some ''sig-A'', lastFaceId := Some ''sig-A'' \<rparr>)))
     = Some ''sig-A''
   \<and> map_option vtype (snd (faceSwitchPhase (Some ''sig-B'') None
       (initialFeed\<lparr> initialFaceId := Some ''sig-A'', lastFaceId := Some ''sig-A'' \<rparr>)))
     = Some ''face_switched''
   \<and> lastFaceId (fst (faceSwitchPhase (Some ''sig-A'') None
       (initialFeed\<lparr> initialFaceId := Some ''sig-A'', lastFaceId := Some ''sig-A'' \<rparr>)))
     = Some ''sig-A''"
  using face_switch_decision [of "initialFeed\<lparr> initialFaceId := Some ''sig-A'', lastFaceId := Some ''sig-A'' \<rparr>"
      "[litFrame (Result (Some [''face_present'']) (Some ''sig-B'') None)]"
      "Some [''face_present'']" "Some ''sig-B''" None "''sig-B''"]
    face_switch_decision [of "initialFeed\<lparr> initialFaceId := Some ''sig-A'', lastFaceId := Some ''sig-A'' \<rparr>"
      "[]" "Some [''face_present'']" "Some ''sig-A''" None "''sig-A''"]
  by (simp add: currentIdOf_def idsAgree_def initialFeed_def)
     (simp add: faceSwitchPhase_def)

text \<open>
  C7 as stated fails: from the start of a session, a tick with signature \<open>sig-A\<close>
  followed by one tick with signature \<open>sig-B\<close> emits \<open>face_switched\<close> on the second
  tick; that signature differs from both the last and the first identity.
\<close>

theorem face_switch_counterexample:
  "map (map_option vtype)
     (snd (ticks [litFrame (Result (Some [''face_present'']) (Some ''sig-A'') None),
                  litFrame (Result (Some [''face_present'']) (Some ''sig-B'') None)]
        initialFeed))
     = [None, Some ''face_switched'']"
  by (simp add: feed_eval litFrame_def)

end
